theory Spec2Isabelle
  imports Main "HOL-Library.Sublist"
begin

section \<open>Data model\<close>

text \<open>
  The supervisor script (the multi-agent workflow) passes one state object between the
  nodes of its graph. A message is a \<open>BaseMessage\<close>: the script reads its \<open>content\<close>
  and builds \<open>HumanMessage\<close>s with a \<open>name\<close>. The content is opaque to the script.
\<close>

datatype message_kind = HumanKind | AIKind | SystemKind | ToolKind

record BaseMessage =
  kind :: message_kind
  content :: string
  name :: "string option"

definition HumanMessage :: "string \<Rightarrow> string option \<Rightarrow> BaseMessage" where
  "HumanMessage c n = \<lparr>kind = HumanKind, content = c, name = n\<rparr>"

text \<open>The graph library's two reserved node names.\<close>

definition END :: string where
  "END = ''__end__''"

definition START :: string where
  "START = ''__start__''"

text \<open>
  \<open>AgentState\<close>: the two channels of the state, \<open>messages\<close> and \<open>next\<close> (the field is
  called \<open>nextNode\<close> here).
\<close>

record AgentState =
  messages :: "BaseMessage list"
  nextNode :: string

text \<open>
  What a node returns: an object with some of the keys of the state. A key that is
  not there is \<open>None\<close>.
\<close>

record StateUpdate =
  upd_messages :: "BaseMessage list option"
  upd_next :: "string option"

section \<open>The reducers of AgentState\<close>

text \<open>\<^verbatim>\<open>reducer: (x, y) => x.concat(y)\<close> and \<^verbatim>\<open>default: () => []\<close>\<close>

definition messages_reducer :: "BaseMessage list \<Rightarrow> BaseMessage list \<Rightarrow> BaseMessage list" where
  "messages_reducer x y = x @ y"

definition messages_default :: "BaseMessage list" where
  "messages_default = []"

text \<open>
  \<^verbatim>\<open>reducer: (x, y) => y ?? x ?? END\<close> and \<^verbatim>\<open>default: () => END\<close>. The operator
  \<open>??\<close> takes its right operand when the left one is undefined or null, which is
  \<open>None\<close> here; it associates to the left.
\<close>

definition nullish :: "'a option \<Rightarrow> 'a option \<Rightarrow> 'a option" where
  "nullish a b = (case a of Some v \<Rightarrow> Some v | None \<Rightarrow> b)"

definition next_reducer :: "string option \<Rightarrow> string option \<Rightarrow> string" where
  "next_reducer x y = (case nullish (nullish y x) (Some END) of Some v \<Rightarrow> v | None \<Rightarrow> END)"

definition next_default :: string where
  "next_default = END"

section \<open>Merging a node's output into the state\<close>

text \<open>
  Modelled from the spec: the graph library that applies the reducers is not part of the
  repository. "After each node invocation, the node's partial output is merged into
  ConversationState using two independent reducers": a key the node returned goes
  through the reducer of its channel, together with the channel's current value; a
  key the node did not return leaves its channel as it is.
\<close>

definition apply_update :: "AgentState \<Rightarrow> StateUpdate \<Rightarrow> AgentState" where
  "apply_update s u =
     \<lparr>messages = (case upd_messages u of
                    None \<Rightarrow> messages s
                  | Some y \<Rightarrow> messages_reducer (messages s) y),
      nextNode = (case upd_next u of
                    None \<Rightarrow> nextNode s
                  | Some v \<Rightarrow> next_reducer (Some (nextNode s)) (Some v))\<rparr>"

text \<open>
  Modelled from the spec: a run starts from the channels' defaults with the caller's
  input merged in ("an initial user message seeds Conversation State").
\<close>

definition initial_state :: "StateUpdate \<Rightarrow> AgentState" where
  "initial_state input =
     apply_update \<lparr>messages = messages_default, nextNode = next_default\<rparr> input"

text \<open>The states a run goes through when its nodes return the outputs \<open>us\<close> in turn.\<close>

fun run_states :: "AgentState \<Rightarrow> StateUpdate list \<Rightarrow> AgentState list" where
  "run_states s [] = [s]"
| "run_states s (u # us) = s # run_states (apply_update s u) us"

section \<open>Errors and the console\<close>

text \<open>
  A \<open>TypeError\<close> is what reading a property of \<open>undefined\<close> throws. \<open>Rejected\<close> is a
  promise rejected by a collaborator outside the script (the language model, the HTTP
  client), with its message. \<open>Thrown\<close> is an error thrown by a collaborator's
  constructor.
\<close>

datatype error = TypeError string | Rejected string | Thrown string

datatype json =
    JNull
  | JBool bool
  | JNum int
  | JStr string
  | JArr "json list"
  | JObj "(string \<times> json) list"

datatype log_entry = LogText string | LogError error

text \<open>Reading \<open>xs[i]\<close>: out of range it is \<open>undefined\<close>.\<close>

definition js_index :: "'a list \<Rightarrow> int \<Rightarrow> 'a option" where
  "js_index xs i = (if 0 \<le> i \<and> i < int (length xs) then Some (xs ! nat i) else None)"

section \<open>The location tool\<close>

record LocationInput =
  locationId :: string

record RequestConfig =
  http_method :: string
  url :: string
  headers :: "(string \<times> string option) list"

record Response =
  status :: nat
  data :: json

text \<open>
  \<open>configDetail\<close>, built inside the tool's function at each call; \<open>env\<close> is
  \<open>process.env\<close> as it is at that moment. A variable that is not set reads as
  \<open>undefined\<close>. The field \<open>maxBodyLength\<close> is left out: the script never reads it.
\<close>

definition configDetail :: "(string \<Rightarrow> string option) \<Rightarrow> string \<Rightarrow> RequestConfig" where
  "configDetail env lid =
     \<lparr>http_method = ''get'',
      url = ''http://api.tripadvisor.com/api/partner/2.0/location/'' @ lid,
      headers = [(''X-TripAdvisor-API-Key'', env ''TRIPADVISOR_API_KEY''),
                 (''User-Agent'', Some ''cashew'')]\<rparr>"

text \<open>
  \<open>getLocationInfo\<close> of the supervisor script. \<open>request\<close> is \<open>axios.request\<close>: it
  resolves to a response or rejects. The result is what the console received and what
  the function returned (\<open>Inl\<close> would be a rejection of the tool's own promise).
\<close>

definition getLocationInfo ::
  "(RequestConfig \<Rightarrow> error + Response) \<Rightarrow> (string \<Rightarrow> string option) \<Rightarrow> LocationInput
     \<Rightarrow> log_entry list \<times> (error + json)" where
  "getLocationInfo request env input =
     (let log0 = [LogText ''getLocationInfo tool called''];
          lid = locationId input;
          cfg = configDetail env lid
      in case request cfg of
           Inr response \<Rightarrow> (log0, Inr (data response))
         | Inl err \<Rightarrow> (log0 @ [LogError err], Inr (JObj [])))"

text \<open>\<open>getLocationInfo\<close> of the intro script: the same without the first log line.\<close>

definition getLocationInfo_intro ::
  "(RequestConfig \<Rightarrow> error + Response) \<Rightarrow> (string \<Rightarrow> string option) \<Rightarrow> LocationInput
     \<Rightarrow> log_entry list \<times> (error + json)" where
  "getLocationInfo_intro request env input =
     (let lid = locationId input;
          cfg = configDetail env lid
      in case request cfg of
           Inr response \<Rightarrow> ([], Inr (data response))
         | Inl err \<Rightarrow> ([LogError err], Inr (JObj [])))"

text \<open>
  The fields the intro script gives the chat model's constructor when the module is
  loaded; \<open>env\<close> is \<open>process.env\<close> at that moment.
\<close>

record ChatOpenAIFields =
  model :: string
  temperature :: int
  apiKey :: "string option"

definition llm_intro :: "(string \<Rightarrow> string option) \<Rightarrow> ChatOpenAIFields" where
  "llm_intro env = \<lparr>model = ''gpt-4o'', temperature = 0, apiKey = env ''OPENAI_API_KEY''\<rparr>"

section \<open>The supervisor\<close>

definition members :: "string list" where
  "members = [''researcher'', ''tripadvisorApi'']"

definition options :: "string list" where
  "options = END # members"

text \<open>
  The arguments of a \<open>route\<close> tool call, as the parser hands them on. Nothing checks
  them against the schema of \<open>routingTool\<close>: under the key \<open>next\<close> there is whatever
  string the model put there, or nothing, and the object may have a key \<open>messages\<close> as
  well. These are the two keys the state has a channel for; the node returns the object
  whole, so both reach the state.
\<close>

datatype RouteArgs =
  RouteArgs (args_next: "string option") (args_messages: "BaseMessage list option")

text \<open>
  What the schema \<^verbatim>\<open>z.object({ next: z.enum([END, ...members]) })\<close> accepts: the
  key \<open>next\<close> must hold one of the enumerated names; the schema says nothing of other
  keys.
\<close>

definition routingTool_schema :: "RouteArgs \<Rightarrow> bool" where
  "routingTool_schema a =
     (case args_next a of None \<Rightarrow> False | Some v \<Rightarrow> v \<in> set (END # members))"

text \<open>One tool call in the output of the \<open>JsonOutputToolsParser\<close>.\<close>

record ToolCall =
  tc_type :: string
  tc_args :: RouteArgs

text \<open>The last stage of the chain, \<^verbatim>\<open>(x) => x[0].args\<close>.\<close>

definition first_args :: "ToolCall list \<Rightarrow> error + RouteArgs" where
  "first_args x =
     (case js_index x 0 of
        None \<Rightarrow> Inl (TypeError ''Cannot read properties of undefined (reading args)'')
      | Some t \<Rightarrow> Inr (tc_args t))"

text \<open>
  \<open>supervisorChain\<close>: the prompt, the model bound to the routing tool and the parser
  are one collaborator \<open>parsed\<close>, whose output goes through \<open>first_args\<close>.
\<close>

definition supervisorChain ::
  "(AgentState \<Rightarrow> error + ToolCall list) \<Rightarrow> AgentState \<Rightarrow> error + RouteArgs" where
  "supervisorChain parsed state =
     (case parsed state of Inl e \<Rightarrow> Inl e | Inr x \<Rightarrow> first_args x)"

text \<open>
  As a node of the graph (\<^verbatim>\<open>.addNode("supervisor", supervisorChain)\<close>) the chain's
  result is the node's output, key by key.
\<close>

definition supervisor_output :: "RouteArgs \<Rightarrow> StateUpdate" where
  "supervisor_output a = \<lparr>upd_messages = args_messages a, upd_next = args_next a\<rparr>"

section \<open>The workers\<close>

text \<open>\<^verbatim>\<open>result.messages[result.messages.length - 1]\<close>\<close>

definition last_message :: "BaseMessage list \<Rightarrow> BaseMessage option" where
  "last_message ms = js_index ms (int (length ms) - 1)"

text \<open>
  The two worker nodes. The agent is the prebuilt reasoning loop, a collaborator: it
  resolves to a result with a list of messages, or rejects.
\<close>

definition researcherNode ::
  "(AgentState \<Rightarrow> error + BaseMessage list) \<Rightarrow> AgentState \<Rightarrow> error + StateUpdate" where
  "researcherNode researcherAgent state =
     (case researcherAgent state of
        Inl e \<Rightarrow> Inl e
      | Inr result \<Rightarrow>
          (case last_message result of
             None \<Rightarrow> Inl (TypeError ''Cannot read properties of undefined (reading content)'')
           | Some lastMessage \<Rightarrow>
               Inr \<lparr>upd_messages = Some [HumanMessage (content lastMessage) (Some ''Researcher'')],
                    upd_next = None\<rparr>))"

definition tripadvisorApiNode ::
  "(AgentState \<Rightarrow> error + BaseMessage list) \<Rightarrow> AgentState \<Rightarrow> error + StateUpdate" where
  "tripadvisorApiNode tripadvisorApiAgent state =
     (case tripadvisorApiAgent state of
        Inl e \<Rightarrow> Inl e
      | Inr result \<Rightarrow>
          (case last_message result of
             None \<Rightarrow> Inl (TypeError ''Cannot read properties of undefined (reading content)'')
           | Some lastMessage \<Rightarrow>
               Inr \<lparr>upd_messages = Some [HumanMessage (content lastMessage) (Some ''TripadvisorAPI'')],
                    upd_next = None\<rparr>))"

section \<open>The graph\<close>

text \<open>The collaborators outside the script that the nodes call.\<close>

record Boundary =
  supervisorParsed :: "AgentState \<Rightarrow> error + ToolCall list"
  researcherAgent :: "AgentState \<Rightarrow> error + BaseMessage list"
  tripadvisorApiAgent :: "AgentState \<Rightarrow> error + BaseMessage list"

text \<open>
  The three \<open>addNode\<close> calls: the names of the nodes, and the function behind each
  name. \<open>invoke_node\<close> is only ever given a name of \<open>node_names\<close>.
\<close>

definition node_names :: "string list" where
  "node_names = [''researcher'', ''tripadvisorApi'', ''supervisor'']"

definition invoke_node :: "Boundary \<Rightarrow> string \<Rightarrow> AgentState \<Rightarrow> error + StateUpdate" where
  "invoke_node B n state =
     (if n = ''researcher'' then researcherNode (researcherAgent B) state
      else if n = ''tripadvisorApi'' then tripadvisorApiNode (tripadvisorApiAgent B) state
      else (case supervisorChain (supervisorParsed B) state of
              Inl e \<Rightarrow> Inl e
            | Inr a \<Rightarrow> Inr (supervisor_output a)))"

text \<open>
  The fixed edges: one from each member to the supervisor, then the one from \<open>START\<close>.
  The conditional edge leaves the supervisor and goes where \<^verbatim>\<open>(x) => x.next\<close> says.
\<close>

definition edges :: "(string \<times> string) list" where
  "edges = map (\<lambda>member. (member, ''supervisor'')) members @ [(START, ''supervisor'')]"

definition conditional_source :: string where
  "conditional_source = ''supervisor''"

definition route :: "AgentState \<Rightarrow> string" where
  "route x = nextNode x"

definition successors :: "string \<Rightarrow> string list" where
  "successors n = map snd (filter (\<lambda>e. fst e = n) edges)"

definition recursionLimit :: nat where
  "recursionLimit = 100"

section \<open>The executor\<close>

text \<open>
  How a run ends when it does not end with a result: the step budget ran out, a node
  failed, or the supervisor named something that is not a node. Each carries the state
  reached so far.
\<close>

datatype run_error =
    StepBudgetExceeded AgentState
  | NodeFailed string error AgentState
  | RoutingContractViolation string AgentState

text \<open>
  Modelled from the spec: the executor is the graph library's, not the repository's.
  Where control goes after a node: "from Router, next state = RoutingDecision.next; from
  any Worker state, next state = Router", read from the edges the script declares.
\<close>

definition next_of :: "string \<Rightarrow> AgentState \<Rightarrow> string" where
  "next_of n state =
     (if n = conditional_source then route state
      else (case successors n of [] \<Rightarrow> END | t # _ \<Rightarrow> t))"

text \<open>
  Modelled from the spec: the executor's loop. "Reaching the terminal sentinel ends the
  run; the final ConversationState is the result"; "the executor enforces a maximum
  number of Router/Worker alternations; exceeding it is a fatal abort"; a destination
  outside the graph is a RoutingContractViolation, "fatal to the run"; any other error
  of a node aborts the run. The first component is the stream: the node invoked at each
  step with its output.
\<close>

fun exec ::
  "Boundary \<Rightarrow> nat \<Rightarrow> string \<Rightarrow> AgentState
     \<Rightarrow> (string \<times> StateUpdate) list \<times> (run_error + AgentState)" where
  "exec B 0 n state =
     (if n = END then ([], Inr state) else ([], Inl (StepBudgetExceeded state)))"
| "exec B (Suc budget) n state =
     (if n = END then ([], Inr state)
      else if n \<notin> set node_names then ([], Inl (RoutingContractViolation n state))
      else (case invoke_node B n state of
              Inl e \<Rightarrow> ([], Inl (NodeFailed n e state))
            | Inr u \<Rightarrow>
                (let state' = apply_update state u;
                     r = exec B budget (next_of n state') state'
                 in ((n, u) # fst r, snd r))))"

text \<open>Modelled from the spec: "Initial state: Router, entered with the seed ConversationState".\<close>

definition run ::
  "Boundary \<Rightarrow> nat \<Rightarrow> StateUpdate
     \<Rightarrow> (string \<times> StateUpdate) list \<times> (run_error + AgentState)" where
  "run B budget input = exec B budget (next_of START (initial_state input)) (initial_state input)"

text \<open>The state a run ended with, whether it ended with a result or with an error.\<close>

fun result_state :: "run_error + AgentState \<Rightarrow> AgentState" where
  "result_state (Inr state) = state"
| "result_state (Inl (StepBudgetExceeded state)) = state"
| "result_state (Inl (NodeFailed n e state)) = state"
| "result_state (Inl (RoutingContractViolation n state)) = state"




definition is_worker :: "string \<Rightarrow> bool" where
  "is_worker n \<longleftrightarrow> n \<in> set members"

section \<open>The HTTP client\<close>

text \<open>
  Modelled from the spec: the HTTP client is a library, not part of the repository. "Any
  transport or non-2xx response" is a failed call: the transport's own failure, or a
  response whose status is outside 200..299, rejects the request.
\<close>

definition axios_request ::
  "(RequestConfig \<Rightarrow> error + Response) \<Rightarrow> RequestConfig \<Rightarrow> error + Response" where
  "axios_request transport cfg =
     (case transport cfg of
        Inl e \<Rightarrow> Inl e
      | Inr response \<Rightarrow>
          (if 200 \<le> status response \<and> status response < 300 then Inr response
           else Inl (Rejected ''Request failed with a status code that is not 2xx'')))"

section \<open>The prebuilt agent\<close>

text \<open>
  What the language model answers inside an agent: its final answer, or a message that
  asks for the agent's tool with an input.
\<close>

datatype 'i llm_reply = FinalAnswer BaseMessage | ToolRequest BaseMessage 'i

fun reply_message :: "'i llm_reply \<Rightarrow> BaseMessage" where
  "reply_message (FinalAnswer m) = m"
| "reply_message (ToolRequest m i) = m"

text \<open>
  Modelled from the spec: the prebuilt agent (\<open>createReactAgent\<close>) is the library's, not
  the repository's. "Performs a single bounded reasoning step using an external LLM with
  access to exactly the adapters declared for this worker; the LLM may choose to invoke
  zero or one adapter calls before producing a final reply"; "adapter failures surface as
  empty tool results fed back into the reasoning step, not as worker failures; only a
  total LLM-invocation failure is fatal and propagates". The result is the history with
  the agent's messages behind it. \<open>render\<close> is how a tool's result becomes the content
  of a tool message.
\<close>

definition react_agent ::
  "(BaseMessage list \<Rightarrow> error + 'i llm_reply) \<Rightarrow> (json \<Rightarrow> string) \<Rightarrow> ('i \<Rightarrow> error + json)
     \<Rightarrow> AgentState \<Rightarrow> error + BaseMessage list" where
  "react_agent llm render tool state =
     (case llm (messages state) of
        Inl e \<Rightarrow> Inl e
      | Inr (FinalAnswer m) \<Rightarrow> Inr (messages state @ [m])
      | Inr (ToolRequest m i) \<Rightarrow>
          (let payload = (case tool i of Inl e \<Rightarrow> JObj [] | Inr p \<Rightarrow> p);
               history = messages state
                  @ [m, \<lparr>kind = ToolKind, content = render payload, name = None\<rparr>]
           in case llm history of
                Inl e \<Rightarrow> Inl e
              | Inr r \<Rightarrow> Inr (history @ [reply_message r])))"

text \<open>The location tool as the agent calls it: what its promise resolves to.\<close>

definition location_tool ::
  "(RequestConfig \<Rightarrow> error + Response) \<Rightarrow> (string \<Rightarrow> string option) \<Rightarrow> LocationInput
     \<Rightarrow> error + json" where
  "location_tool request env input = snd (getLocationInfo request env input)"

section \<open>Loading the intro script\<close>

text \<open>
  Modelled from the spec: the chat model's constructor is the library's. "Absence should
  fail fast at startup rather than per-call": without a key the constructor throws.
\<close>

definition ChatOpenAI_new :: "ChatOpenAIFields \<Rightarrow> error + ChatOpenAIFields" where
  "ChatOpenAI_new given =
     (case apiKey given of
        None \<Rightarrow> Inl (Thrown ''OpenAI API key not found'')
      | Some k \<Rightarrow> Inr given)"

text \<open>
  What loading the intro script leaves behind: its binding \<open>llm\<close>. The tool is defined at
  load as well, but defining it reads nothing. \<open>env\<close> is \<open>process.env\<close> at load. Of the
  script's top-level statements only the construction of \<open>llm\<close> reads the environment in
  the script's own text; what the libraries' other constructors read by themselves is not
  part of this model.
\<close>

record Module =
  llm :: ChatOpenAIFields

definition load_intro :: "(string \<Rightarrow> string option) \<Rightarrow> error + Module" where
  "load_intro env =
     (case ChatOpenAI_new (llm_intro env) of
        Inl e \<Rightarrow> Inl e
      | Inr client \<Rightarrow> Inr \<lparr>llm = client\<rparr>)"

text \<open>
  \<open>callModel\<close> of the intro script: it invokes the client that the load bound, with the
  state's messages, and returns the answer as the one new message. \<open>invoke\<close> is the
  model's call; it is given the client, and with it the key.
\<close>

definition callModel ::
  "Module \<Rightarrow> (ChatOpenAIFields \<Rightarrow> BaseMessage list \<Rightarrow> error + BaseMessage) \<Rightarrow> BaseMessage list
     \<Rightarrow> error + BaseMessage list" where
  "callModel M invoke msgs =
     (case invoke (llm M) msgs of Inl e \<Rightarrow> Inl e | Inr result \<Rightarrow> Inr [result])"

section \<open>Concrete collaborators\<close>

text \<open>The seed of the script's own run, and what \<open>graph.stream\<close> is given.\<close>

definition seed :: BaseMessage where
  "seed = HumanMessage ''What is the exact address? locationId: 229968'' None"

definition seed_input :: StateUpdate where
  "seed_input = \<lparr>upd_messages = Some [seed], upd_next = None\<rparr>"

definition answer :: BaseMessage where
  "answer = \<lparr>kind = AIKind, content = ''123 Main St'', name = None\<rparr>"

text \<open>Outputs of the model and the parser: a name outside the enumeration, a member
  followed by a second call, the terminal sentinel, and no tool call at all.\<close>

definition parsed_bogus :: "AgentState \<Rightarrow> error + ToolCall list" where
  "parsed_bogus state = Inr [\<lparr>tc_type = ''route'', tc_args = RouteArgs (Some ''bogus'') None\<rparr>]"

definition parsed_researcher :: "AgentState \<Rightarrow> error + ToolCall list" where
  "parsed_researcher state =
     Inr [\<lparr>tc_type = ''route'', tc_args = RouteArgs (Some ''researcher'') None\<rparr>,
          \<lparr>tc_type = ''route'', tc_args = RouteArgs (Some END) None\<rparr>]"

definition parsed_finish :: "AgentState \<Rightarrow> error + ToolCall list" where
  "parsed_finish state = Inr [\<lparr>tc_type = ''route'', tc_args = RouteArgs (Some END) None\<rparr>]"

definition parsed_nothing :: "AgentState \<Rightarrow> error + ToolCall list" where
  "parsed_nothing state = Inr []"

text \<open>An agent that adds its answer to the history, and one whose model call is refused.\<close>

definition agent_answers :: "AgentState \<Rightarrow> error + BaseMessage list" where
  "agent_answers state = Inr (messages state @ [answer])"

definition agent_rejects :: "AgentState \<Rightarrow> error + BaseMessage list" where
  "agent_rejects state = Inl (Rejected ''429 You exceeded your current quota'')"


definition boundary_finish :: Boundary where
  "boundary_finish = \<lparr>supervisorParsed = parsed_finish,
                       researcherAgent = agent_answers,
                       tripadvisorApiAgent = agent_answers\<rparr>"

text \<open>A server that answers 500, one that answers 200, and three environments.\<close>

definition transport_500 :: "RequestConfig \<Rightarrow> error + Response" where
  "transport_500 cfg = Inr \<lparr>status = 500, data = JStr ''Internal Server Error''\<rparr>"

definition transport_ok :: "RequestConfig \<Rightarrow> error + Response" where
  "transport_ok cfg = Inr \<lparr>status = 200, data = JObj [(''address'', JStr ''123 Main St'')]\<rparr>"

definition env_unset :: "string \<Rightarrow> string option" where
  "env_unset k = None"

definition env_first :: "string \<Rightarrow> string option" where
  "env_first k = (if k = ''TRIPADVISOR_API_KEY'' then Some ''key-one'' else None)"

definition env_second :: "string \<Rightarrow> string option" where
  "env_second k = (if k = ''TRIPADVISOR_API_KEY'' then Some ''key-two'' else None)"


text \<open>A decision for the terminal sentinel that carries a message of its own.\<close>

definition closing_note :: BaseMessage where
  "closing_note = \<lparr>kind = AIKind, content = ''All done.'', name = None\<rparr>"

definition parsed_finish_note :: "AgentState \<Rightarrow> error + ToolCall list" where
  "parsed_finish_note state =
     Inr [\<lparr>tc_type = ''route'', tc_args = RouteArgs (Some END) (Some [closing_note])\<rparr>]"

definition boundary_finish_note :: Boundary where
  "boundary_finish_note = \<lparr>supervisorParsed = parsed_finish_note,
                            researcherAgent = agent_answers,
                            tripadvisorApiAgent = agent_answers\<rparr>"



text \<open>
  Language models inside the agent: one that asks for the location tool and then
  answers with what it was given, one whose call is refused.
\<close>

definition llm_asks_then_answers :: "BaseMessage list \<Rightarrow> error + LocationInput llm_reply" where
  "llm_asks_then_answers history =
     (if kind (last history) = ToolKind
      then Inr (FinalAnswer \<lparr>kind = AIKind, content = ''The tool returned '' @ content (last history),
                              name = None\<rparr>)
      else Inr (ToolRequest \<lparr>kind = AIKind, content = [], name = None\<rparr> \<lparr>locationId = ''229968''\<rparr>))"

definition llm_rejects :: "BaseMessage list \<Rightarrow> error + LocationInput llm_reply" where
  "llm_rejects history = Inl (Rejected ''429 You exceeded your current quota'')"

definition render_plain :: "json \<Rightarrow> string" where
  "render_plain j = (if j = JObj [] then ''{}'' else ''data'')"

definition location_tool_500 :: "LocationInput \<Rightarrow> error + json" where
  "location_tool_500 = location_tool (axios_request transport_500) env_first"

definition agent_react_500 :: "AgentState \<Rightarrow> error + BaseMessage list" where
  "agent_react_500 = react_agent llm_asks_then_answers render_plain location_tool_500"

definition agent_react_rejects :: "AgentState \<Rightarrow> error + BaseMessage list" where
  "agent_react_rejects = react_agent llm_rejects render_plain location_tool_500"

text \<open>An environment with the model's key and without the location key.\<close>

definition env_llm_only :: "string \<Rightarrow> string option" where
  "env_llm_only k = (if k = ''OPENAI_API_KEY'' then Some ''sk-one'' else None)"

definition invoke_echo_key :: "ChatOpenAIFields \<Rightarrow> BaseMessage list \<Rightarrow> error + BaseMessage" where
  "invoke_echo_key client msgs =
     (case apiKey client of
        None \<Rightarrow> Inl (Rejected ''401 No API key provided'')
      | Some k \<Rightarrow> Inr \<lparr>kind = AIKind, content = k, name = None\<rparr>)"

section \<open>Properties of the reducers and of the merge\<close>

text \<open>
  C1. The two reducers are functions of their two arguments only. For every prior
  message list x and node output y the messages reducer returns x followed by y, and
  the next reducer returns y when y is defined, else x when x is defined, else the
  terminal sentinel.
\<close>

theorem C1_reducers:
  "messages_reducer x y = x @ y
   \<and> next_reducer px (Some v) = v
   \<and> next_reducer (Some u) None = u
   \<and> next_reducer None None = END"
  by (simp add: messages_reducer_def next_reducer_def nullish_def)

lemma apply_update_prefix: "prefix (messages s) (messages (apply_update s u))"
  by (simp add: apply_update_def messages_reducer_def split: option.splits)

lemma run_states_step:
  "k < length us \<Longrightarrow> run_states s us ! Suc k = apply_update (run_states s us ! k) (us ! k)"
proof (induction us arbitrary: s k)
  case Nil
  then show ?case by simp
next
  case (Cons u us)
  show ?case
  proof (cases k)
    case 0
    then show ?thesis by (cases us) simp_all
  next
    case (Suc j)
    with Cons show ?thesis by simp
  qed
qed

text \<open>
  C2. Step over step the message list only grows at its end: the list before step k
  is no longer than the list after it and is its unchanged beginning, whatever the
  nodes return.
\<close>

theorem C2_append_only:
  assumes "k < length us"
  shows "length (messages (run_states s us ! k)) \<le> length (messages (run_states s us ! Suc k))
         \<and> prefix (messages (run_states s us ! k)) (messages (run_states s us ! Suc k))
         \<and> take (length (messages (run_states s us ! k))) (messages (run_states s us ! Suc k))
             = messages (run_states s us ! k)"
proof -
  let ?a = "run_states s us ! k"
  have step: "run_states s us ! Suc k = apply_update ?a (us ! k)"
    using assms by (rule run_states_step)
  have p: "prefix (messages ?a) (messages (run_states s us ! Suc k))"
    unfolding step by (rule apply_update_prefix)
  from p have l: "length (messages ?a) \<le> length (messages (run_states s us ! Suc k))"
    by (rule prefix_length_le)
  from p obtain zs where "messages (run_states s us ! Suc k) = messages ?a @ zs"
    by (auto simp: prefix_def)
  then have "take (length (messages ?a)) (messages (run_states s us ! Suc k)) = messages ?a"
    by simp
  with p l show ?thesis by simp
qed

text \<open>
  The rule at the script's own seed: the supervisor's output adds nothing, the
  researcher's output adds one message behind the seed.
\<close>

theorem C2_append_only_witness:
  "(1::nat) < length [supervisor_output (RouteArgs (Some ''researcher'') None),
                      \<lparr>upd_messages = Some [answer], upd_next = None\<rparr>]
   \<and> prefix [seed]
        (messages (run_states (initial_state seed_input)
           [supervisor_output (RouteArgs (Some ''researcher'') None),
            \<lparr>upd_messages = Some [answer], upd_next = None\<rparr>] ! 2))
   \<and> messages (run_states (initial_state seed_input)
           [supervisor_output (RouteArgs (Some ''researcher'') None),
            \<lparr>upd_messages = Some [answer], upd_next = None\<rparr>] ! 2) = [seed, answer]"
proof -
  let ?us = "[supervisor_output (RouteArgs (Some ''researcher'') None),
              \<lparr>upd_messages = Some [answer], upd_next = None\<rparr>]"
  have h: "(1::nat) < length ?us"
    by simp
  have s0: "initial_state seed_input = \<lparr>messages = [seed], nextNode = END\<rparr>"
    by (simp add: initial_state_def seed_input_def apply_update_def messages_reducer_def
        messages_default_def next_default_def)
  have one: "messages (run_states (initial_state seed_input) ?us ! 1) = [seed]"
    by (simp add: s0 apply_update_def supervisor_output_def)
  have two: "messages (run_states (initial_state seed_input) ?us ! 2) = [seed, answer]"
    by (simp add: s0 apply_update_def supervisor_output_def messages_reducer_def
        numeral_2_eq_2)
  show ?thesis
    using h one two C2_append_only [OF h, of "initial_state seed_input"]
    by (simp add: numeral_2_eq_2)
qed

section \<open>Properties of the supervisor\<close>

lemma first_args_Cons: "first_args (t # rest) = Inr (tc_args t)"
  by (simp add: first_args_def js_index_def)

lemma route_upd_next: "upd_next u = Some d \<Longrightarrow> route (apply_update state u) = d"
  by (simp add: route_def apply_update_def next_reducer_def nullish_def)

lemma route_supervisor_output:
  "args_next a = Some d \<Longrightarrow> route (apply_update state (supervisor_output a)) = d"
  by (simp add: route_upd_next supervisor_output_def)

text \<open>
  C3, as the claim states it, fails: the chain hands on whatever the first tool call
  carries. With the name \<open>bogus\<close>, which the schema does not accept and which is
  neither the terminal sentinel nor a node, the chain returns normally and the
  conditional edge reads \<open>bogus\<close> from the state.
\<close>

theorem C3_counterexample:
  "supervisorChain parsed_bogus (initial_state seed_input) = Inr (RouteArgs (Some ''bogus'') None)
   \<and> \<not> routingTool_schema (RouteArgs (Some ''bogus'') None)
   \<and> ''bogus'' \<notin> set options
   \<and> route (apply_update (initial_state seed_input) (supervisor_output (RouteArgs (Some ''bogus'') None)))
       = ''bogus''
   \<and> ''bogus'' \<noteq> END \<and> ''bogus'' \<notin> set node_names"
  by (simp add: supervisorChain_def parsed_bogus_def first_args_def js_index_def
      routingTool_schema_def options_def members_def END_def route_def apply_update_def
      supervisor_output_def next_reducer_def nullish_def node_names_def)

text \<open>
  C3, amended. The routing schema accepts exactly the terminal sentinel and the two
  member names. The chain returns the arguments of the first tool call as they are,
  without checking them against the schema. When those arguments conform to the
  schema, the decision is in the closed set, the conditional edge reads that same
  decision from the merged state, and it is the terminal sentinel or a node of the
  graph.
\<close>

theorem C3_routing_closure:
  "routingTool_schema a = (args_next a \<in> {Some END, Some ''researcher'', Some ''tripadvisorApi''})
   \<and> (parsed state = Inr (t # rest) \<longrightarrow> supervisorChain parsed state = Inr (tc_args t))
   \<and> (parsed state = Inr (t # rest) \<and> routingTool_schema (tc_args t) \<longrightarrow>
        (\<exists>d. supervisorChain parsed state = Inr (tc_args t)
            \<and> args_next (tc_args t) = Some d
            \<and> d \<in> set options
            \<and> route (apply_update state (supervisor_output (tc_args t))) = d
            \<and> (d = END \<or> d \<in> set node_names)))"
proof (intro conjI impI)
  show "routingTool_schema a = (args_next a \<in> {Some END, Some ''researcher'', Some ''tripadvisorApi''})"
    by (auto simp: routingTool_schema_def members_def split: option.splits)
next
  assume "parsed state = Inr (t # rest)"
  then show "supervisorChain parsed state = Inr (tc_args t)"
    by (simp add: supervisorChain_def first_args_Cons)
next
  assume h: "parsed state = Inr (t # rest) \<and> routingTool_schema (tc_args t)"
  then obtain d where d: "args_next (tc_args t) = Some d" "d \<in> set (END # members)"
    by (auto simp: routingTool_schema_def split: option.splits)
  from h have "supervisorChain parsed state = Inr (tc_args t)"
    by (simp add: supervisorChain_def first_args_Cons)
  moreover from d have "d \<in> set options" by (simp add: options_def)
  moreover from d have "d = END \<or> d \<in> set node_names"
    by (auto simp: members_def node_names_def)
  moreover from d(1) have "route (apply_update state (supervisor_output (tc_args t))) = d"
    by (rule route_supervisor_output)
  ultimately show "\<exists>d. supervisorChain parsed state = Inr (tc_args t)
            \<and> args_next (tc_args t) = Some d
            \<and> d \<in> set options
            \<and> route (apply_update state (supervisor_output (tc_args t))) = d
            \<and> (d = END \<or> d \<in> set node_names)"
    using d(1) by blast
qed

theorem C3_routing_closure_witness:
  "parsed_researcher (initial_state seed_input)
     = Inr [\<lparr>tc_type = ''route'', tc_args = RouteArgs (Some ''researcher'') None\<rparr>,
            \<lparr>tc_type = ''route'', tc_args = RouteArgs (Some END) None\<rparr>]
   \<and> routingTool_schema (RouteArgs (Some ''researcher'') None)
   \<and> supervisorChain parsed_researcher (initial_state seed_input)
       = Inr (RouteArgs (Some ''researcher'') None)
   \<and> ''researcher'' \<in> set options
   \<and> route (apply_update (initial_state seed_input)
        (supervisor_output (RouteArgs (Some ''researcher'') None))) = ''researcher''
   \<and> ''researcher'' \<in> set node_names"
  using C3_routing_closure [of "RouteArgs (Some ''researcher'') None" parsed_researcher
      "initial_state seed_input" "\<lparr>tc_type = ''route'', tc_args = RouteArgs (Some ''researcher'') None\<rparr>"
      "[\<lparr>tc_type = ''route'', tc_args = RouteArgs (Some END) None\<rparr>]"]
  by (auto simp: parsed_researcher_def END_def)

text \<open>
  C10. The chain's decision is the arguments of the first tool call: the calls after
  the first make no difference, and with no tool call at all the chain fails with a
  TypeError; it returns no decision, the terminal sentinel or any other.
\<close>

theorem C10_first_tool_call:
  "first_args (t # rest) = Inr (tc_args t)
   \<and> first_args (t # rest) = first_args [t]
   \<and> (\<exists>msg. first_args [] = Inl (TypeError msg))
   \<and> (parsed state = Inr (t # rest) \<longrightarrow> supervisorChain parsed state = Inr (tc_args t))
   \<and> (parsed state = Inr [] \<longrightarrow>
        (\<exists>msg. supervisorChain parsed state = Inl (TypeError msg))
        \<and> supervisorChain parsed state \<noteq> Inr a)"
  by (auto simp: first_args_def js_index_def supervisorChain_def)

theorem C10_first_tool_call_witness:
  "parsed_researcher (initial_state seed_input)
     = Inr [\<lparr>tc_type = ''route'', tc_args = RouteArgs (Some ''researcher'') None\<rparr>,
            \<lparr>tc_type = ''route'', tc_args = RouteArgs (Some END) None\<rparr>]
   \<and> supervisorChain parsed_researcher (initial_state seed_input)
       = Inr (RouteArgs (Some ''researcher'') None)
   \<and> parsed_nothing (initial_state seed_input) = Inr []
   \<and> (\<exists>msg. supervisorChain parsed_nothing (initial_state seed_input) = Inl (TypeError msg))
   \<and> supervisorChain parsed_nothing (initial_state seed_input) \<noteq> Inr (RouteArgs (Some END) None)"
proof -
  have a: "parsed_researcher (initial_state seed_input)
     = Inr [\<lparr>tc_type = ''route'', tc_args = RouteArgs (Some ''researcher'') None\<rparr>,
            \<lparr>tc_type = ''route'', tc_args = RouteArgs (Some END) None\<rparr>]"
    by (simp add: parsed_researcher_def)
  have b: "parsed_nothing (initial_state seed_input) = Inr []"
    by (simp add: parsed_nothing_def)
  show ?thesis
    using a b
      C10_first_tool_call [of "\<lparr>tc_type = ''route'', tc_args = RouteArgs (Some ''researcher'') None\<rparr>"
        "[\<lparr>tc_type = ''route'', tc_args = RouteArgs (Some END) None\<rparr>]"
        parsed_researcher "initial_state seed_input"]
      C10_first_tool_call [of _ _ parsed_nothing "initial_state seed_input"
        "RouteArgs (Some END) None"]
    by simp
qed

section \<open>Properties of the workers\<close>

lemma last_message_nonempty: "result \<noteq> [] \<Longrightarrow> last_message result = Some (last result)"
  by (cases result rule: rev_cases) (simp_all add: last_message_def js_index_def nth_append)

lemma successors_member: "m \<in> set members \<Longrightarrow> successors m = [''supervisor'']"
  by (auto simp: successors_def edges_def members_def START_def)

lemma next_of_member: "m \<in> set members \<Longrightarrow> next_of m state = ''supervisor''"
  by (auto simp: next_of_def successors_member conditional_source_def members_def)

lemma researcherNode_no_next: "researcherNode agent state = Inr u \<Longrightarrow> upd_next u = None"
  by (auto simp: researcherNode_def split: sum.splits option.splits)

lemma tripadvisorApiNode_no_next: "tripadvisorApiNode agent state = Inr u \<Longrightarrow> upd_next u = None"
  by (auto simp: tripadvisorApiNode_def split: sum.splits option.splits)

lemma worker_no_next:
  "m \<in> set members \<Longrightarrow> invoke_node B m state = Inr u \<Longrightarrow> upd_next u = None"
  by (auto simp: invoke_node_def members_def
      dest: researcherNode_no_next tripadvisorApiNode_no_next)

lemma apply_update_no_next: "upd_next u = None \<Longrightarrow> nextNode (apply_update state u) = nextNode state"
  by (simp add: apply_update_def)

text \<open>
  C4. The only edge that leaves a member goes to the supervisor, the conditional edge
  does not start at a member, and the output of a member's node has no \<open>next\<close> key,
  so merging it leaves the \<open>next\<close> channel as it was.
\<close>

theorem C4_workers_report_back:
  assumes "m \<in> set members"
  shows "successors m = [''supervisor'']
         \<and> m \<noteq> conditional_source
         \<and> next_of m state' = ''supervisor''
         \<and> (invoke_node B m state = Inr u \<longrightarrow>
              upd_next u = None \<and> nextNode (apply_update state u) = nextNode state)"
proof -
  have "m \<noteq> conditional_source"
    using assms by (auto simp: members_def conditional_source_def)
  moreover have "invoke_node B m state = Inr u \<longrightarrow>
              upd_next u = None \<and> nextNode (apply_update state u) = nextNode state"
    using assms worker_no_next apply_update_no_next by blast
  ultimately show ?thesis
    using assms by (simp add: successors_member next_of_member)
qed

theorem C4_workers_report_back_witness:
  "''tripadvisorApi'' \<in> set members
   \<and> successors ''tripadvisorApi'' = [''supervisor'']
   \<and> invoke_node boundary_finish ''tripadvisorApi'' \<lparr>messages = [seed], nextNode = ''tripadvisorApi''\<rparr>
       = Inr \<lparr>upd_messages = Some [HumanMessage ''123 Main St'' (Some ''TripadvisorAPI'')], upd_next = None\<rparr>
   \<and> nextNode (apply_update \<lparr>messages = [seed], nextNode = ''tripadvisorApi''\<rparr>
        \<lparr>upd_messages = Some [HumanMessage ''123 Main St'' (Some ''TripadvisorAPI'')], upd_next = None\<rparr>)
       = ''tripadvisorApi''"
proof -
  have m: "''tripadvisorApi'' \<in> set members"
    by (simp add: members_def)
  have i: "invoke_node boundary_finish ''tripadvisorApi'' \<lparr>messages = [seed], nextNode = ''tripadvisorApi''\<rparr>
       = Inr \<lparr>upd_messages = Some [HumanMessage ''123 Main St'' (Some ''TripadvisorAPI'')], upd_next = None\<rparr>"
    by (simp add: invoke_node_def boundary_finish_def tripadvisorApiNode_def agent_answers_def
        last_message_def js_index_def answer_def)
  show ?thesis
    using m i C4_workers_report_back [OF m, of "\<lparr>messages = [seed], nextNode = ''tripadvisorApi''\<rparr>"
        boundary_finish "\<lparr>messages = [seed], nextNode = ''tripadvisorApi''\<rparr>"
        "\<lparr>upd_messages = Some [HumanMessage ''123 Main St'' (Some ''TripadvisorAPI'')], upd_next = None\<rparr>"]
    by simp
qed

lemma seed_state: "initial_state seed_input = \<lparr>messages = [seed], nextNode = END\<rparr>"
  by (simp add: initial_state_def seed_input_def apply_update_def messages_reducer_def
      messages_default_def next_default_def)

lemma react_agent_nonempty: "react_agent lm render tool state = Inr result \<Longrightarrow> result \<noteq> []"
  by (auto simp: react_agent_def Let_def split: sum.splits llm_reply.splits)

lemma react_agent_rejects:
  "react_agent lm render tool state = Inl e \<Longrightarrow> \<exists>history. lm history = Inl e"
  by (auto simp: react_agent_def Let_def split: sum.splits llm_reply.splits)

lemma worker_rejects_only_with_llm:
  assumes "researcherNode (react_agent lm render tool) state = Inl e
           \<or> tripadvisorApiNode (react_agent lm render tool) state = Inl e"
  shows "\<exists>history. lm history = Inl e"
proof (cases "react_agent lm render tool state")
  case (Inl e')
  with assms have "e' = e"
    by (auto simp: researcherNode_def tripadvisorApiNode_def)
  with Inl show ?thesis
    using react_agent_rejects by blast
next
  case (Inr result)
  then have "result \<noteq> []"
    by (rule react_agent_nonempty)
  with Inr assms show ?thesis
    by (auto simp: researcherNode_def tripadvisorApiNode_def last_message_nonempty)
qed

lemma location_tool_failed:
  "request (configDetail env (locationId i)) = Inl err \<Longrightarrow> location_tool request env i = Inr (JObj [])"
  by (simp add: location_tool_def getLocationInfo_def Let_def)

text \<open>
  C7, as the claim states it, fails. A worker node has no handler around the agent's
  invocation: when the agent rejects, the node rejects with the same error and returns
  no message, here with the model's call refused, for any agent and for the prebuilt one
  whose tool's request always fails. And the message a worker returns is not named
  after the member: the researcher's is named \<open>Researcher\<close>, which is none of the
  declared worker names.
\<close>

theorem C7_counterexample:
  "researcherNode agent_rejects (initial_state seed_input)
     = Inl (Rejected ''429 You exceeded your current quota'')
   \<and> tripadvisorApiNode agent_react_rejects (initial_state seed_input)
     = Inl (Rejected ''429 You exceeded your current quota'')
   \<and> researcherNode agent_answers (initial_state seed_input)
     = Inr \<lparr>upd_messages = Some [\<lparr>kind = HumanKind, content = ''123 Main St'',
                                   name = Some ''Researcher''\<rparr>],
            upd_next = None\<rparr>
   \<and> ''Researcher'' \<notin> set members"
  by (simp add: researcherNode_def tripadvisorApiNode_def agent_rejects_def agent_react_rejects_def
      react_agent_def llm_rejects_def agent_answers_def seed_state last_message_def js_index_def
      answer_def HumanMessage_def members_def)

text \<open>
  C7, amended. When the agent resolves with a list of messages that is not empty, the
  worker node returns exactly one new message: a human message that carries the
  content of the agent's last message and the name \<open>Researcher\<close> or
  \<open>TripadvisorAPI\<close>. When the agent rejects, the node rejects with the same error.
  With the prebuilt agent a worker rejects only with an error of a call of the language
  model, whatever its tool does. In particular, when the model asks for the location
  tool, the tool's request fails and the model then answers, the tool message holds
  the empty record and the worker returns exactly one message, with the content of that
  answer.
\<close>

theorem C7_worker_one_message:
  "(agent state = Inr result \<and> result \<noteq> [] \<longrightarrow>
      researcherNode agent state
        = Inr \<lparr>upd_messages = Some [\<lparr>kind = HumanKind, content = content (last result),
                                      name = Some ''Researcher''\<rparr>],
               upd_next = None\<rparr>
      \<and> tripadvisorApiNode agent state
        = Inr \<lparr>upd_messages = Some [\<lparr>kind = HumanKind, content = content (last result),
                                      name = Some ''TripadvisorAPI''\<rparr>],
               upd_next = None\<rparr>)
   \<and> (agent state = Inl e \<longrightarrow>
        researcherNode agent state = Inl e \<and> tripadvisorApiNode agent state = Inl e)
   \<and> (researcherNode (react_agent lm render tool) state = Inl e
        \<or> tripadvisorApiNode (react_agent lm render tool) state = Inl e
        \<longrightarrow> (\<exists>history. lm history = Inl e))
   \<and> (lm' (messages state) = Inr (ToolRequest m i)
        \<and> request (configDetail env (locationId i)) = Inl err
        \<and> lm' (messages state @ [m, \<lparr>kind = ToolKind, content = render (JObj []), name = None\<rparr>])
            = Inr r
        \<longrightarrow> tripadvisorApiNode (react_agent lm' render (location_tool request env)) state
              = Inr \<lparr>upd_messages = Some [\<lparr>kind = HumanKind, content = content (reply_message r),
                                            name = Some ''TripadvisorAPI''\<rparr>],
                     upd_next = None\<rparr>)"
proof (intro conjI impI)
  assume "agent state = Inr result \<and> result \<noteq> []"
  then show "researcherNode agent state
        = Inr \<lparr>upd_messages = Some [\<lparr>kind = HumanKind, content = content (last result),
                                      name = Some ''Researcher''\<rparr>],
               upd_next = None\<rparr>"
    and "tripadvisorApiNode agent state
        = Inr \<lparr>upd_messages = Some [\<lparr>kind = HumanKind, content = content (last result),
                                      name = Some ''TripadvisorAPI''\<rparr>],
               upd_next = None\<rparr>"
    by (simp_all add: researcherNode_def tripadvisorApiNode_def last_message_nonempty
        HumanMessage_def)
next
  assume "agent state = Inl e"
  then show "researcherNode agent state = Inl e" and "tripadvisorApiNode agent state = Inl e"
    by (simp_all add: researcherNode_def tripadvisorApiNode_def)
next
  assume "researcherNode (react_agent lm render tool) state = Inl e
        \<or> tripadvisorApiNode (react_agent lm render tool) state = Inl e"
  then show "\<exists>history. lm history = Inl e"
    by (rule worker_rejects_only_with_llm)
next
  assume h: "lm' (messages state) = Inr (ToolRequest m i)
        \<and> request (configDetail env (locationId i)) = Inl err
        \<and> lm' (messages state @ [m, \<lparr>kind = ToolKind, content = render (JObj []), name = None\<rparr>])
            = Inr r"
  then have "location_tool request env i = Inr (JObj [])"
    by (simp add: location_tool_failed)
  with h have "react_agent lm' render (location_tool request env) state
      = Inr ((messages state @ [m, \<lparr>kind = ToolKind, content = render (JObj []), name = None\<rparr>])
             @ [reply_message r])"
    by (simp add: react_agent_def)
  then show "tripadvisorApiNode (react_agent lm' render (location_tool request env)) state
              = Inr \<lparr>upd_messages = Some [\<lparr>kind = HumanKind, content = content (reply_message r),
                                            name = Some ''TripadvisorAPI''\<rparr>],
                     upd_next = None\<rparr>"
    by (simp add: tripadvisorApiNode_def last_message_nonempty HumanMessage_def)
qed

theorem C7_worker_one_message_witness:
  "agent_answers (initial_state seed_input) = Inr [seed, answer]
   \<and> researcherNode agent_answers (initial_state seed_input)
       = Inr \<lparr>upd_messages = Some [\<lparr>kind = HumanKind, content = ''123 Main St'',
                                     name = Some ''Researcher''\<rparr>],
              upd_next = None\<rparr>
   \<and> agent_rejects (initial_state seed_input) = Inl (Rejected ''429 You exceeded your current quota'')
   \<and> tripadvisorApiNode agent_rejects (initial_state seed_input)
       = Inl (Rejected ''429 You exceeded your current quota'')
   \<and> axios_request transport_500 (configDetail env_first ''229968'')
       = Inl (Rejected ''Request failed with a status code that is not 2xx'')
   \<and> tripadvisorApiNode agent_react_500 (initial_state seed_input)
       = Inr \<lparr>upd_messages = Some [\<lparr>kind = HumanKind, content = ''The tool returned {}'',
                                     name = Some ''TripadvisorAPI''\<rparr>],
              upd_next = None\<rparr>"
proof -
  have a: "agent_answers (initial_state seed_input) = Inr [seed, answer]"
    by (simp add: seed_state agent_answers_def)
  have b: "agent_rejects (initial_state seed_input) = Inl (Rejected ''429 You exceeded your current quota'')"
    by (simp add: agent_rejects_def)
  have c: "llm_asks_then_answers (messages (initial_state seed_input))
      = Inr (ToolRequest \<lparr>kind = AIKind, content = [], name = None\<rparr> \<lparr>locationId = ''229968''\<rparr>)"
    by (simp add: llm_asks_then_answers_def seed_state seed_def HumanMessage_def)
  have d: "axios_request transport_500 (configDetail env_first (locationId \<lparr>locationId = ''229968''\<rparr>))
       = Inl (Rejected ''Request failed with a status code that is not 2xx'')"
    by (simp add: axios_request_def transport_500_def)
  have e: "llm_asks_then_answers (messages (initial_state seed_input)
        @ [\<lparr>kind = AIKind, content = [], name = None\<rparr>,
           \<lparr>kind = ToolKind, content = render_plain (JObj []), name = None\<rparr>])
      = Inr (FinalAnswer \<lparr>kind = AIKind, content = ''The tool returned {}'', name = None\<rparr>)"
    by (simp add: llm_asks_then_answers_def render_plain_def)
  have w1: "researcherNode agent_answers (initial_state seed_input)
       = Inr \<lparr>upd_messages = Some [\<lparr>kind = HumanKind, content = ''123 Main St'',
                                     name = Some ''Researcher''\<rparr>],
              upd_next = None\<rparr>"
    using a C7_worker_one_message [of agent_answers "initial_state seed_input" "[seed, answer]"
        "Rejected ''429 You exceeded your current quota''" llm_rejects render_plain
        location_tool_500
        llm_asks_then_answers "\<lparr>kind = AIKind, content = [], name = None\<rparr>"
        "\<lparr>locationId = ''229968''\<rparr>" "axios_request transport_500" env_first
        "Rejected ''Request failed with a status code that is not 2xx''"
        "FinalAnswer \<lparr>kind = AIKind, content = ''The tool returned {}'', name = None\<rparr>"]
    by (simp add: answer_def)
  have w2: "tripadvisorApiNode agent_rejects (initial_state seed_input)
       = Inl (Rejected ''429 You exceeded your current quota'')"
    using b C7_worker_one_message [of agent_rejects "initial_state seed_input" "[]"
        "Rejected ''429 You exceeded your current quota''" llm_rejects render_plain
        location_tool_500
        llm_asks_then_answers "\<lparr>kind = AIKind, content = [], name = None\<rparr>"
        "\<lparr>locationId = ''229968''\<rparr>" "axios_request transport_500" env_first
        "Rejected ''Request failed with a status code that is not 2xx''"
        "FinalAnswer \<lparr>kind = AIKind, content = ''The tool returned {}'', name = None\<rparr>"]
    by simp
  have w3: "tripadvisorApiNode agent_react_500 (initial_state seed_input)
       = Inr \<lparr>upd_messages = Some [\<lparr>kind = HumanKind, content = ''The tool returned {}'',
                                     name = Some ''TripadvisorAPI''\<rparr>],
              upd_next = None\<rparr>"
    using c d e
      C7_worker_one_message [of agent_answers "initial_state seed_input" "[]"
        "Rejected ''429 You exceeded your current quota''" llm_rejects render_plain
        location_tool_500
        llm_asks_then_answers "\<lparr>kind = AIKind, content = [], name = None\<rparr>"
        "\<lparr>locationId = ''229968''\<rparr>" "axios_request transport_500" env_first
        "Rejected ''Request failed with a status code that is not 2xx''"
        "FinalAnswer \<lparr>kind = AIKind, content = ''The tool returned {}'', name = None\<rparr>"]
    by (simp add: agent_react_500_def location_tool_500_def)
  show ?thesis
    using a b d w1 w2 w3 by simp
qed

section \<open>Properties of the location tool and of the keys\<close>

text \<open>
  C8. When the request rejects, the tool logs the error and returns the empty record,
  in both scripts; whatever the request does, the tool's own promise never rejects.
\<close>

theorem C8_adapter_catches:
  "(request (configDetail env (locationId input)) = Inl err \<longrightarrow>
      getLocationInfo request env input
        = ([LogText ''getLocationInfo tool called'', LogError err], Inr (JObj []))
      \<and> getLocationInfo_intro request env input = ([LogError err], Inr (JObj [])))
   \<and> snd (getLocationInfo request env input) \<noteq> Inl e
   \<and> snd (getLocationInfo_intro request env input) \<noteq> Inl e"
  by (simp add: getLocationInfo_def getLocationInfo_intro_def Let_def split: sum.splits)

theorem C8_adapter_catches_witness:
  "axios_request transport_500 (configDetail env_first (locationId \<lparr>locationId = ''229968''\<rparr>))
     = Inl (Rejected ''Request failed with a status code that is not 2xx'')
   \<and> getLocationInfo (axios_request transport_500) env_first \<lparr>locationId = ''229968''\<rparr>
       = ([LogText ''getLocationInfo tool called'',
           LogError (Rejected ''Request failed with a status code that is not 2xx'')],
          Inr (JObj []))
   \<and> getLocationInfo_intro (axios_request transport_500) env_first \<lparr>locationId = ''229968''\<rparr>
       = ([LogError (Rejected ''Request failed with a status code that is not 2xx'')],
          Inr (JObj []))"
proof -
  have a: "axios_request transport_500 (configDetail env_first (locationId \<lparr>locationId = ''229968''\<rparr>))
     = Inl (Rejected ''Request failed with a status code that is not 2xx'')"
    by (simp add: axios_request_def transport_500_def)
  show ?thesis
    using a C8_adapter_catches [of "axios_request transport_500" env_first
        "\<lparr>locationId = ''229968''\<rparr>" "Rejected ''Request failed with a status code that is not 2xx''"]
    by simp
qed

text \<open>
  C9, as the claim states it, fails for the location key. Under an environment that
  has the model's key and not the location key, loading the intro script succeeds;
  the tool's request is then built with the header undefined, it is sent all the same
  and the call returns the payload: nothing fails, at startup or later. And the header
  follows the environment of each call: two calls under two environments carry two
  different keys.
\<close>

theorem C9_counterexample:
  "env_llm_only ''TRIPADVISOR_API_KEY'' = None
   \<and> load_intro env_llm_only
       = Inr \<lparr>llm = \<lparr>model = ''gpt-4o'', temperature = 0, apiKey = Some ''sk-one''\<rparr>\<rparr>
   \<and> map_of (headers (configDetail env_llm_only ''229968'')) ''X-TripAdvisor-API-Key'' = Some None
   \<and> getLocationInfo_intro (axios_request transport_ok) env_llm_only \<lparr>locationId = ''229968''\<rparr>
       = ([], Inr (JObj [(''address'', JStr ''123 Main St'')]))
   \<and> getLocationInfo (axios_request transport_ok) env_unset \<lparr>locationId = ''229968''\<rparr>
       = ([LogText ''getLocationInfo tool called''],
          Inr (JObj [(''address'', JStr ''123 Main St'')]))
   \<and> map_of (headers (configDetail env_first ''229968'')) ''X-TripAdvisor-API-Key''
       = Some (Some ''key-one'')
   \<and> map_of (headers (configDetail env_second ''229968'')) ''X-TripAdvisor-API-Key''
       = Some (Some ''key-two'')"
  by (simp add: configDetail_def env_unset_def env_first_def env_second_def env_llm_only_def
      getLocationInfo_def getLocationInfo_intro_def axios_request_def transport_ok_def
      load_intro_def ChatOpenAI_new_def llm_intro_def)

text \<open>
  C9, amended. The key of the language model is read once, when the intro script is
  loaded: a load that succeeds has bound a client holding the key the environment had
  at load, every later call of the model is given that client whatever the environment
  has become, and a load without the key fails. The location key is read from the
  environment each time the tool is called, when the request is built; its absence is
  checked nowhere: it does not make the load fail, the call never rejects, and what the
  call returns depends on the request alone.
\<close>

theorem C9_secrets:
  "(load_intro env0 = Inr M \<longrightarrow>
      llm M = llm_intro env0 \<and> apiKey (llm M) = env0 ''OPENAI_API_KEY''
      \<and> env0 ''OPENAI_API_KEY'' \<noteq> None
      \<and> callModel M invoke msgs
          = (case invoke (llm_intro env0) msgs of Inl e \<Rightarrow> Inl e | Inr result \<Rightarrow> Inr [result]))
   \<and> (env0 ''OPENAI_API_KEY'' = None \<longrightarrow> load_intro env0 = Inl (Thrown ''OpenAI API key not found''))
   \<and> (env0 ''OPENAI_API_KEY'' \<noteq> None \<longrightarrow> load_intro env0 = Inr \<lparr>llm = llm_intro env0\<rparr>)
   \<and> map_of (headers (configDetail env lid)) ''X-TripAdvisor-API-Key'' = Some (env ''TRIPADVISOR_API_KEY'')
   \<and> getLocationInfo request env input
       = (case request (configDetail env (locationId input)) of
            Inr response \<Rightarrow> ([LogText ''getLocationInfo tool called''], Inr (data response))
          | Inl err \<Rightarrow> ([LogText ''getLocationInfo tool called'', LogError err], Inr (JObj [])))
   \<and> getLocationInfo_intro request env input
       = (case request (configDetail env (locationId input)) of
            Inr response \<Rightarrow> ([], Inr (data response))
          | Inl err \<Rightarrow> ([LogError err], Inr (JObj [])))
   \<and> snd (getLocationInfo request env input) \<noteq> Inl e'
   \<and> snd (getLocationInfo_intro request env input) \<noteq> Inl e'"
proof -
  have load: "load_intro env0
      = (case env0 ''OPENAI_API_KEY'' of
           None \<Rightarrow> Inl (Thrown ''OpenAI API key not found'')
         | Some k \<Rightarrow> Inr \<lparr>llm = llm_intro env0\<rparr>)"
    by (simp add: load_intro_def ChatOpenAI_new_def llm_intro_def split: option.splits)
  have c1: "load_intro env0 = Inr M \<longrightarrow>
      llm M = llm_intro env0 \<and> apiKey (llm M) = env0 ''OPENAI_API_KEY''
      \<and> env0 ''OPENAI_API_KEY'' \<noteq> None
      \<and> callModel M invoke msgs
          = (case invoke (llm_intro env0) msgs of Inl e \<Rightarrow> Inl e | Inr result \<Rightarrow> Inr [result])"
  proof
    assume h: "load_intro env0 = Inr M"
    then obtain k where k: "env0 ''OPENAI_API_KEY'' = Some k"
      unfolding load by (cases "env0 ''OPENAI_API_KEY''") simp_all
    with h have m: "M = \<lparr>llm = llm_intro env0\<rparr>"
      unfolding load by simp
    show "llm M = llm_intro env0 \<and> apiKey (llm M) = env0 ''OPENAI_API_KEY''
      \<and> env0 ''OPENAI_API_KEY'' \<noteq> None
      \<and> callModel M invoke msgs
          = (case invoke (llm_intro env0) msgs of Inl e \<Rightarrow> Inl e | Inr result \<Rightarrow> Inr [result])"
      unfolding m using k by (simp add: callModel_def llm_intro_def)
  qed
  have c2: "env0 ''OPENAI_API_KEY'' = None \<longrightarrow> load_intro env0 = Inl (Thrown ''OpenAI API key not found'')"
    unfolding load by simp
  have c3: "env0 ''OPENAI_API_KEY'' \<noteq> None \<longrightarrow> load_intro env0 = Inr \<lparr>llm = llm_intro env0\<rparr>"
    unfolding load by (cases "env0 ''OPENAI_API_KEY''") simp_all
  have c4: "map_of (headers (configDetail env lid)) ''X-TripAdvisor-API-Key''
      = Some (env ''TRIPADVISOR_API_KEY'')"
    by (simp add: configDetail_def)
  have c5: "getLocationInfo request env input
       = (case request (configDetail env (locationId input)) of
            Inr response \<Rightarrow> ([LogText ''getLocationInfo tool called''], Inr (data response))
          | Inl err \<Rightarrow> ([LogText ''getLocationInfo tool called'', LogError err], Inr (JObj [])))"
    by (simp add: getLocationInfo_def Let_def split: sum.splits)
  have c6: "getLocationInfo_intro request env input
       = (case request (configDetail env (locationId input)) of
            Inr response \<Rightarrow> ([], Inr (data response))
          | Inl err \<Rightarrow> ([LogError err], Inr (JObj [])))"
    by (simp add: getLocationInfo_intro_def Let_def split: sum.splits)
  have c7: "snd (getLocationInfo request env input) \<noteq> Inl e'"
    unfolding c5 by (simp split: sum.splits)
  have c8: "snd (getLocationInfo_intro request env input) \<noteq> Inl e'"
    unfolding c6 by (simp split: sum.splits)
  from c1 c2 c3 c4 c5 c6 c7 c8 show ?thesis
    by blast
qed

theorem C9_secrets_witness:
  "load_intro env_llm_only
     = Inr \<lparr>llm = \<lparr>model = ''gpt-4o'', temperature = 0, apiKey = Some ''sk-one''\<rparr>\<rparr>
   \<and> callModel \<lparr>llm = \<lparr>model = ''gpt-4o'', temperature = 0, apiKey = Some ''sk-one''\<rparr>\<rparr>
        invoke_echo_key [seed]
       = Inr [\<lparr>kind = AIKind, content = ''sk-one'', name = None\<rparr>]
   \<and> env_first ''OPENAI_API_KEY'' = None
   \<and> load_intro env_first = Inl (Thrown ''OpenAI API key not found'')
   \<and> map_of (headers (configDetail env_llm_only ''229968'')) ''X-TripAdvisor-API-Key'' = Some None"
proof -
  let ?M = "\<lparr>llm = \<lparr>model = ''gpt-4o'', temperature = 0, apiKey = Some ''sk-one''\<rparr>\<rparr>"
  have a: "load_intro env_llm_only = Inr ?M"
    by (simp add: load_intro_def ChatOpenAI_new_def llm_intro_def env_llm_only_def)
  have b: "env_first ''OPENAI_API_KEY'' = None"
    by (simp add: env_first_def)
  have i: "invoke_echo_key (llm_intro env_llm_only) [seed]
      = Inr \<lparr>kind = AIKind, content = ''sk-one'', name = None\<rparr>"
    by (simp add: invoke_echo_key_def llm_intro_def env_llm_only_def)
  note T = C9_secrets [of env_llm_only ?M invoke_echo_key "[seed]" env_llm_only "''229968''"
        "axios_request transport_ok" "\<lparr>locationId = ''229968''\<rparr>" "Rejected []"]
  from T a have "callModel ?M invoke_echo_key [seed]
      = (case invoke_echo_key (llm_intro env_llm_only) [seed] of
           Inl e \<Rightarrow> Inl e | Inr result \<Rightarrow> Inr [result])"
    by blast
  then have w1: "callModel ?M invoke_echo_key [seed]
      = Inr [\<lparr>kind = AIKind, content = ''sk-one'', name = None\<rparr>]"
    by (simp add: i)
  from b C9_secrets [of env_first ?M invoke_echo_key "[seed]" env_llm_only "''229968''"
        "axios_request transport_ok" "\<lparr>locationId = ''229968''\<rparr>" "Rejected []"]
  have w2: "load_intro env_first = Inl (Thrown ''OpenAI API key not found'')"
    by blast
  from T have "map_of (headers (configDetail env_llm_only ''229968'')) ''X-TripAdvisor-API-Key''
      = Some (env_llm_only ''TRIPADVISOR_API_KEY'')"
    by blast
  then have w3: "map_of (headers (configDetail env_llm_only ''229968'')) ''X-TripAdvisor-API-Key''
      = Some None"
    by (simp add: env_llm_only_def)
  from a b w1 w2 w3 show ?thesis
    by blast
qed

section \<open>Properties of the executor\<close>

lemma entry_node: "next_of START state = ''supervisor''"
  by (simp add: next_of_def successors_def edges_def members_def START_def conditional_source_def)

lemma next_of_supervisor: "next_of ''supervisor'' state = route state"
  by (simp add: next_of_def conditional_source_def)

lemma run_states_nonempty: "run_states s us \<noteq> []"
  by (cases us) simp_all

text \<open>Every run of the executor goes through the states that its stream's outputs give.\<close>

lemma exec_follows_run_states:
  "result_state (snd (exec B budget n state))
     = last (run_states state (map snd (fst (exec B budget n state))))"
proof (induction budget arbitrary: n state)
  case 0
  then show ?case by simp
next
  case (Suc budget)
  show ?case
  proof (cases "invoke_node B n state")
    case (Inl e)
    then show ?thesis by simp
  next
    case (Inr u)
    then show ?thesis
      using Suc.IH [of "next_of n (apply_update state u)" "apply_update state u"]
      by (simp add: Let_def run_states_nonempty)
  qed
qed








lemma recursionLimit_Suc: "recursionLimit = Suc (Suc 98)"
  by (simp add: recursionLimit_def)




text \<open>
  C6, as the claim states it, fails. The supervisor node returns the arguments of the
  first tool call whole, and nothing checks them against the schema: when the decision
  for the terminal sentinel comes with a \<open>messages\<close> key, those messages are merged
  into the state. The run is one invocation of the supervisor and none of a worker, but
  the final state holds a second message behind the seed.
\<close>

theorem C6_counterexample:
  "supervisorChain (supervisorParsed boundary_finish_note) (initial_state seed_input)
     = Inr (RouteArgs (Some END) (Some [closing_note]))
   \<and> run boundary_finish_note recursionLimit seed_input
       = ([(''supervisor'', \<lparr>upd_messages = Some [closing_note], upd_next = Some END\<rparr>)],
          Inr \<lparr>messages = [seed, closing_note], nextNode = END\<rparr>)
   \<and> [seed, closing_note] \<noteq> [seed]"
proof -
  have a: "supervisorChain (supervisorParsed boundary_finish_note) (initial_state seed_input)
     = Inr (RouteArgs (Some END) (Some [closing_note]))"
    by (simp add: boundary_finish_note_def parsed_finish_note_def supervisorChain_def first_args_Cons)
  have s1: "apply_update \<lparr>messages = [seed], nextNode = END\<rparr>
               \<lparr>upd_messages = Some [closing_note], upd_next = Some END\<rparr>
            = \<lparr>messages = [seed, closing_note], nextNode = END\<rparr>"
    by (simp add: apply_update_def messages_reducer_def next_reducer_def nullish_def)
  have sup: "''supervisor'' \<noteq> END" "''supervisor'' \<in> set node_names"
    by (simp_all add: END_def node_names_def)
  have inv: "invoke_node boundary_finish_note ''supervisor'' \<lparr>messages = [seed], nextNode = END\<rparr>
      = Inr \<lparr>upd_messages = Some [closing_note], upd_next = Some END\<rparr>"
    using a by (simp add: invoke_node_def seed_state supervisor_output_def)
  have b0: "exec boundary_finish_note (Suc (Suc k)) ''supervisor'' \<lparr>messages = [seed], nextNode = END\<rparr>
       = ([(''supervisor'', \<lparr>upd_messages = Some [closing_note], upd_next = Some END\<rparr>)],
          Inr \<lparr>messages = [seed, closing_note], nextNode = END\<rparr>)" for k
    using sup inv by (simp add: s1 next_of_supervisor route_def)
  have b: "run boundary_finish_note recursionLimit seed_input
       = ([(''supervisor'', \<lparr>upd_messages = Some [closing_note], upd_next = Some END\<rparr>)],
          Inr \<lparr>messages = [seed, closing_note], nextNode = END\<rparr>)"
    unfolding run_def recursionLimit_Suc entry_node seed_state by (rule b0)
  from a b show ?thesis
    by simp
qed

text \<open>
  C6, amended. When the supervisor's first decision is the terminal sentinel and the
  budget allows one step, the run is one invocation of the supervisor and none of a
  worker, and it ends with a result. The final state holds the seed message, followed
  by the messages that the decision carries under a \<open>messages\<close> key, if it has one:
  when the decision has the key \<open>next\<close> alone, as the routing schema describes it, the
  final state holds the seed message and nothing else.
\<close>

theorem C6_terminal_first:
  assumes "supervisorParsed B (initial_state \<lparr>upd_messages = Some [m], upd_next = None\<rparr>) = Inr (t # rest)"
    and "args_next (tc_args t) = Some END"
    and "0 < budget"
  shows "run B budget \<lparr>upd_messages = Some [m], upd_next = None\<rparr>
           = ([(''supervisor'', supervisor_output (tc_args t))],
              Inr \<lparr>messages = m # (case args_messages (tc_args t) of None \<Rightarrow> [] | Some ms \<Rightarrow> ms),
                   nextNode = END\<rparr>)
         \<and> length (filter (\<lambda>e. fst e = ''supervisor'')
               (fst (run B budget \<lparr>upd_messages = Some [m], upd_next = None\<rparr>))) = 1
         \<and> length (filter (\<lambda>e. is_worker (fst e))
               (fst (run B budget \<lparr>upd_messages = Some [m], upd_next = None\<rparr>))) = 0
         \<and> (args_messages (tc_args t) = None \<longrightarrow>
              run B budget \<lparr>upd_messages = Some [m], upd_next = None\<rparr>
                = ([(''supervisor'', \<lparr>upd_messages = None, upd_next = Some END\<rparr>)],
                   Inr \<lparr>messages = [m], nextNode = END\<rparr>))"
proof -
  let ?input = "\<lparr>upd_messages = Some [m], upd_next = None\<rparr>"
  let ?u = "supervisor_output (tc_args t)"
  let ?final = "\<lparr>messages = m # (case args_messages (tc_args t) of None \<Rightarrow> [] | Some ms \<Rightarrow> ms),
                  nextNode = END\<rparr>"
  obtain k where k: "budget = Suc k"
    using assms(3) by (cases budget) simp_all
  have s0: "initial_state ?input = \<lparr>messages = [m], nextNode = END\<rparr>"
    by (simp add: initial_state_def apply_update_def messages_reducer_def messages_default_def
        next_default_def)
  have inv: "invoke_node B ''supervisor'' \<lparr>messages = [m], nextNode = END\<rparr> = Inr ?u"
    using assms(1) unfolding s0
    by (simp add: invoke_node_def supervisorChain_def first_args_Cons)
  have s1: "apply_update \<lparr>messages = [m], nextNode = END\<rparr> ?u = ?final"
    using assms(2)
    by (simp add: apply_update_def supervisor_output_def messages_reducer_def next_reducer_def
        nullish_def split: option.splits)
  have nx: "next_of ''supervisor'' ?final = END"
    by (simp add: next_of_supervisor route_def)
  have fin: "exec B k END ?final = ([], Inr ?final)"
    by (cases k) simp_all
  have sup: "''supervisor'' \<noteq> END" "''supervisor'' \<in> set node_names"
    by (simp_all add: END_def node_names_def)
  have r: "run B budget ?input = ([(''supervisor'', ?u)], Inr ?final)"
    unfolding run_def entry_node k s0
    using inv sup by (simp add: s1 nx fin)
  have plain: "args_messages (tc_args t) = None \<longrightarrow>
      ?u = \<lparr>upd_messages = None, upd_next = Some END\<rparr> \<and> ?final = \<lparr>messages = [m], nextNode = END\<rparr>"
    using assms(2) by (simp add: supervisor_output_def)
  show ?thesis
    unfolding r using plain by (simp add: is_worker_def members_def)
qed

theorem C6_terminal_first_witness:
  "supervisorParsed boundary_finish (initial_state \<lparr>upd_messages = Some [seed], upd_next = None\<rparr>)
     = Inr [\<lparr>tc_type = ''route'', tc_args = RouteArgs (Some END) None\<rparr>]
   \<and> (0::nat) < recursionLimit
   \<and> run boundary_finish recursionLimit \<lparr>upd_messages = Some [seed], upd_next = None\<rparr>
       = ([(''supervisor'', \<lparr>upd_messages = None, upd_next = Some END\<rparr>)],
          Inr \<lparr>messages = [seed], nextNode = END\<rparr>)"
proof -
  have a: "supervisorParsed boundary_finish (initial_state \<lparr>upd_messages = Some [seed], upd_next = None\<rparr>)
     = Inr (\<lparr>tc_type = ''route'', tc_args = RouteArgs (Some END) None\<rparr> # [])"
    by (simp add: boundary_finish_def parsed_finish_def)
  have b: "args_next (tc_args \<lparr>tc_type = ''route'', tc_args = RouteArgs (Some END) None\<rparr>) = Some END"
    by simp
  have c: "0 < recursionLimit"
    by (simp add: recursionLimit_def)
  from C6_terminal_first [OF a b c]
  have "run boundary_finish recursionLimit \<lparr>upd_messages = Some [seed], upd_next = None\<rparr>
       = ([(''supervisor'', \<lparr>upd_messages = None, upd_next = Some END\<rparr>)],
          Inr \<lparr>messages = [seed], nextNode = END\<rparr>)"
    by (simp add: supervisor_output_def)
  with a c show ?thesis
    by simp
qed

end
